theory Spec2Isabelle
  imports Complex_Main "HOL-Library.Log_Nat"
begin

section \<open>JavaScript values read by the dashboard\<close>

text \<open>
  A telemetry field is a JavaScript number that may be missing. A score is a finite
  double, written as the real number it denotes; the seconds-distracted counter is an
  integer. \<open>JUndefined\<close>, \<open>JNull\<close> and \<open>JNaN\<close> are the falsy non-numbers a field can
  hold.
\<close>

datatype 'a jsval = JUndefined | JNull | JNaN | JNum 'a

text \<open>
  The falsy values among these: the non-numbers and the number zero.
  \<^verbatim>\<open>v || 0\<close> is the left operand when it is truthy, otherwise the right operand \<open>0\<close>.
\<close>

fun falsy :: "('a::zero) jsval \<Rightarrow> bool" where
  "falsy (JNum x) = (x = 0)"
| "falsy JUndefined = True"
| "falsy JNull = True"
| "falsy JNaN = True"

fun or_zero :: "('a::zero) jsval \<Rightarrow> 'a" where
  "or_zero (JNum x) = (if x = 0 then 0 else x)"
| "or_zero JUndefined = 0"
| "or_zero JNull = 0"
| "or_zero JNaN = 0"

text \<open>Decimal rendering of an integer, as a template literal \<^verbatim>\<open>${n}\<close> prints it.\<close>

fun show_nat :: "nat \<Rightarrow> string" where
  "show_nat n =
     (if n < 10 then [''0123456789'' ! n]
      else show_nat (n div 10) @ [''0123456789'' ! (n mod 10)])"

definition show_int :: "int \<Rightarrow> string" where
  "show_int i = (if i < 0 then CHR ''-'' # show_nat (nat (- i)) else show_nat (nat i))"

section \<open>Double-precision arithmetic\<close>

text \<open>
  JavaScript computes on IEEE-754 binary64 numbers: every decimal literal and every
  result of \<^verbatim>\<open>*\<close> and \<^verbatim>\<open>+\<close> is the exact value rounded to the nearest double, ties going
  to the even significand. A finite double is written here as the real number it denotes.
\<close>

text \<open>The nearest integer, a tie going to the even neighbour.\<close>

definition round_even :: "real \<Rightarrow> int" where
  "round_even y =
     (let f = \<lfloor>y\<rfloor>; d = y - of_int f
      in if d < 1 / 2 then f
         else if 1 / 2 < d then f + 1
         else if even f then f else f + 1)"

text \<open>
  The smallest positive double is \<open>2 powi (- 1074)\<close>, and \<open>2 ^ 1024\<close> is the first power of
  two beyond the largest one.
\<close>

definition subnormal_bits :: nat where
  "subnormal_bits = 1074"

definition overflow :: real where
  "overflow = 2 ^ 1024"

text \<open>
  The binary exponent of \<open>x\<close>: the \<open>e\<close> with \<open>2 powi e \<le> \<bar>x\<bar> < 2 powi (e + 1)\<close>, read off the bit
  length of \<open>\<bar>x\<bar>\<close> scaled to an integer, and \<open>- 1022\<close> below the normal range.
\<close>

definition expo :: "real \<Rightarrow> int" where
  "expo x = max (- 1022) (bitlen \<lfloor>\<bar>x\<bar> * 2 ^ subnormal_bits\<rfloor> - int subnormal_bits - 1)"

text \<open>
  Rounding to binary64: the magnitude is rounded to a multiple of the spacing of doubles
  at its exponent (a 53-bit significand). A result of \<open>overflow\<close> or more is
  \<^verbatim>\<open>Infinity\<close>; it is written as \<open>overflow\<close>, which compares with every finite double as
  \<^verbatim>\<open>Infinity\<close> does.
\<close>

definition round64 :: "real \<Rightarrow> real" where
  "round64 x =
     (let q = 2 powi (expo x - 52);
          y = of_int (round_even (\<bar>x\<bar> / q)) * q
      in sgn x * min y overflow)"

text \<open>The double that a decimal literal of the source denotes.\<close>

definition dbl :: "real \<Rightarrow> real" where
  "dbl x = round64 x"

section \<open>FocusMonitor: the attentiveness classifier\<close>

record focusStats =
  attentionScore :: "real jsval"
  posture :: "real jsval"
  timeDistracted :: "int jsval"

datatype AttentivenessState = Attentive | Distracted | Unknown

record reading =
  attentivenessState :: AttentivenessState
  attentivenessDescription :: string

text \<open>The two \<^verbatim>\<open>useState\<close> initial values of the component.\<close>

definition initialReading :: reading where
  "initialReading = \<lparr>attentivenessState = Unknown, attentivenessDescription = ''''\<rparr>"

definition descriptions :: "string list" where
  "descriptions =
     [''Engaged eye contact maintained'',
      ''Active listening indicators'',
      ''Focused facial orientation'',
      ''Attention signals detected'']"

definition distractionDescriptions :: "string list" where
  "distractionDescriptions =
     [''Attention appears elsewhere'',
      ''Limited engagement signals'',
      ''Focus wavering'',
      ''Attention needs refocusing'']"

text \<open>
  \<^verbatim>\<open>xs[Math.floor(r * xs.length)]\<close>, where \<open>r\<close> is the value \<^verbatim>\<open>Math.random()\<close> returned.
  \<^verbatim>\<open>Math.random()\<close> lies in \<open>[0, 1)\<close>, so the index is in range; outside that interval
  the array read gives \<^verbatim>\<open>undefined\<close>, which the component renders as no text. The
  product of a double in \<open>[0, 1)\<close> and the length 4 is a double, so nothing is rounded.
\<close>

definition pick :: "string list \<Rightarrow> real \<Rightarrow> string" where
  "pick xs r =
     (let i = \<lfloor>r * real (length xs)\<rfloor>
      in if 0 \<le> i \<and> i < int (length xs) then xs ! nat i else '''')"

text \<open>
  \<^verbatim>\<open>(score * 0.6) + (posture * 0.4)\<close>: two rounded products of a score and a rounded
  literal, and their rounded sum.
\<close>

definition attentivenessScore :: "real \<Rightarrow> real \<Rightarrow> real" where
  "attentivenessScore score post =
     round64 (round64 (score * dbl 0.6) + round64 (post * dbl 0.4))"

text \<open>
  One run of \<^verbatim>\<open>analyzeAttentiveness\<close> on the current \<^verbatim>\<open>focusStats\<close>, with \<open>r\<close> the
  random number it may draw. The two setter calls of each branch give the new reading.
  Every threshold is the double its literal denotes.
\<close>

definition analyzeAttentiveness :: "focusStats \<Rightarrow> real \<Rightarrow> reading" where
  "analyzeAttentiveness fs r =
     (let score = or_zero (attentionScore fs);
          post = or_zero (posture fs);
          td = or_zero (timeDistracted fs);
          w = attentivenessScore score post
      in if w > dbl 0.65 then
           \<lparr>attentivenessState = Attentive,
            attentivenessDescription =
              (if score > dbl 0.8 then ''Strong engagement detected''
               else if post > dbl 0.8 then ''Optimal listening posture''
               else pick descriptions r)\<rparr>
         else if w < dbl 0.4 \<or> td > 5 then
           \<lparr>attentivenessState = Distracted,
            attentivenessDescription =
              (if score < dbl 0.3 then ''Limited screen focus detected''
               else if post < dbl 0.3 then ''Posture indicates disengagement''
               else if td > 5 then ''Distracted for '' @ show_int td @ ''s''
               else pick distractionDescriptions r)\<rparr>
         else
           \<lparr>attentivenessState = Unknown,
            attentivenessDescription = ''Processing attention patterns...''\<rparr>)"

text \<open>
  What the sampling effect depends on: the \<^verbatim>\<open>isActive\<close> prop, the two flags of the
  detection hook, and whether \<^verbatim>\<open>videoRef.current\<close> holds an element.
\<close>

record camera =
  isActive :: bool
  facingCamera :: bool
  webcamReady :: bool
  videoElement :: bool

text \<open>
  One 500 ms period of the component. The effect returns before \<^verbatim>\<open>setInterval\<close> when a
  guard fails, and its cleanup clears the interval whenever a dependency changes, so
  the analyzer runs in a period only under the guards of that period.
\<close>

definition tick :: "camera \<Rightarrow> focusStats \<Rightarrow> real \<Rightarrow> reading \<Rightarrow> reading" where
  "tick cam fs r rd =
     (if \<not> isActive cam \<or> \<not> facingCamera cam \<or> \<not> webcamReady cam then rd
      else if \<not> videoElement cam then rd
      else analyzeAttentiveness fs r)"

text \<open>A run of the monitor: each period has its own camera flags, telemetry and draw.\<close>

fun ticks :: "reading \<Rightarrow> (camera \<times> focusStats \<times> real) list \<Rightarrow> reading" where
  "ticks rd [] = rd"
| "ticks rd ((cam, fs, r) # ps) = ticks (tick cam fs r rd) ps"

section \<open>Index page: the session controller\<close>

text \<open>Times are milliseconds since the epoch, as \<^verbatim>\<open>Date.now()\<close> gives them.\<close>

record 'sum session =
  hasConsent :: "bool option"
  isRecording :: bool
  sessionComplete :: bool
  sessionStartTime :: "int option"
  sessionSummary :: "'sum option"

definition initialSession :: "'sum session" where
  "initialSession =
     \<lparr>hasConsent = None, isRecording = False, sessionComplete = False,
      sessionStartTime = None, sessionSummary = None\<rparr>"

text \<open>The object handed to \<^verbatim>\<open>generateSessionSummary\<close>.\<close>

datatype summaryInput =
  SummaryInput (duration: int) (averageFocus: "real jsval")
    (distractedTime: "int jsval") (transcription: string)

text \<open>
  Calls a handler makes on its collaborators, in order: the webcam hook, the summary
  generator and the toast (variant when one is given, title, description).
\<close>

datatype effect =
    RequestWebcamAccess
  | StopWebcamAccess
  | GenerateSessionSummary summaryInput
  | Toast "string option" string string

text \<open>\<open>success\<close> is the boolean \<^verbatim>\<open>requestWebcamAccess()\<close> resolved to.\<close>

definition handleConsentApproved :: "bool \<Rightarrow> 'sum session \<Rightarrow> 'sum session \<times> effect list" where
  "handleConsentApproved success s =
     (if success then
        (s\<lparr>hasConsent := Some True\<rparr>,
         [RequestWebcamAccess,
          Toast None ''Ready to start''
            ''Click 'Start Session' when you're ready to begin''])
      else
        (s,
         [RequestWebcamAccess,
          Toast (Some ''destructive'') ''Camera access required''
            ''Please grant camera access to use FocusLens'']))"

definition handleConsentDeclined :: "'sum session \<Rightarrow> 'sum session \<times> effect list" where
  "handleConsentDeclined s =
     (s\<lparr>hasConsent := Some False\<rparr>,
      [Toast None ''Camera access declined''
         ''You can still use the transcription features without camera access.''])"

definition handleStartSession :: "int \<Rightarrow> 'sum session \<Rightarrow> 'sum session \<times> effect list" where
  "handleStartSession now s =
     (s\<lparr>isRecording := True, sessionStartTime := Some now, sessionComplete := False\<rparr>,
      [Toast None ''Session started''
         ''Focus monitoring and transcription are now active.''])"

text \<open>
  \<open>gen\<close> is the summary generator, \<open>now\<close> the value of \<^verbatim>\<open>Date.now()\<close>, \<open>fs\<close> the current
  telemetry and \<open>tr\<close> the current transcription.
\<close>

definition handleEndSession ::
  "(summaryInput \<Rightarrow> 'sum) \<Rightarrow> int \<Rightarrow> focusStats \<Rightarrow> string \<Rightarrow> 'sum session
     \<Rightarrow> 'sum session \<times> effect list" where
  "handleEndSession gen now fs tr s =
     (if \<not> isRecording s then (s, [])
      else
        let d = (case sessionStartTime s of
                   Some t \<Rightarrow> \<lfloor>real_of_int (now - t) / 1000\<rfloor>
                 | None \<Rightarrow> 0);
            inp = SummaryInput d (attentionScore fs) (timeDistracted fs) tr;
            summary = gen inp
        in (s\<lparr>sessionSummary := Some summary, isRecording := False, sessionComplete := True\<rparr>,
            [GenerateSessionSummary inp,
             StopWebcamAccess,
             Toast None ''Session complete''
               (''Your '' @ show_int d @ '' second session has been analyzed.'')]))"

definition handleResetSession :: "'sum session \<Rightarrow> 'sum session \<times> effect list" where
  "handleResetSession s = (s\<lparr>sessionComplete := False, sessionSummary := None\<rparr>, [])"

text \<open>
  The session status of the design, read off the component's state variables: a session
  that records is \<open>Recording\<close>, one whose completion flag is set is \<open>Complete\<close>, and an idle
  one is named by the consent decision.
\<close>

datatype status = AwaitingConsent | ConsentDeclined | Ready | Recording | Complete

definition status_of :: "'sum session \<Rightarrow> status" where
  "status_of s =
     (if isRecording s then Recording
      else if sessionComplete s then Complete
      else case hasConsent s of
             None \<Rightarrow> AwaitingConsent
           | Some True \<Rightarrow> Ready
           | Some False \<Rightarrow> ConsentDeclined)"

text \<open>
  What \<^verbatim>\<open>renderContent\<close> shows: the consent dialog while consent is undecided, the summary
  when the completion flag is set and a summary is stored, the main view otherwise.
\<close>

datatype view = ConsentView | SummaryView | MainView

definition renderContent :: "'sum session \<Rightarrow> view" where
  "renderContent s =
     (if hasConsent s = None then ConsentView
      else if sessionComplete s \<and> sessionSummary s \<noteq> None then SummaryView
      else MainView)"

text \<open>
  \<^verbatim>\<open>handleResetSession\<close> is called from one place, the \<^verbatim>\<open>onReset\<close> of the summary view: a
  reset happens when that view is shown, and on the other views there is nothing to
  invoke it.
\<close>

definition onReset :: "'sum session \<Rightarrow> 'sum session \<times> effect list" where
  "onReset s = (if renderContent s = SummaryView then handleResetSession s else (s, []))"

text \<open>The operations of the controller with the inputs each one reads.\<close>

datatype operation =
    ConsentApproved bool
  | ConsentDeclinedOp
  | StartSession int
  | EndSession int focusStats string
  | ResetSession

fun perform :: "(summaryInput \<Rightarrow> 'sum) \<Rightarrow> 'sum session \<Rightarrow> operation \<Rightarrow> 'sum session \<times> effect list" where
  "perform gen s (ConsentApproved success) = handleConsentApproved success s"
| "perform gen s ConsentDeclinedOp = handleConsentDeclined s"
| "perform gen s (StartSession now) = handleStartSession now s"
| "perform gen s (EndSession now fs tr) = handleEndSession gen now fs tr s"
| "perform gen s ResetSession = handleResetSession s"

text \<open>The state after a sequence of operations from the initial state of the page.\<close>

fun run_from :: "(summaryInput \<Rightarrow> 'sum) \<Rightarrow> 'sum session \<Rightarrow> operation list \<Rightarrow> 'sum session" where
  "run_from gen s [] = s"
| "run_from gen s (ev # evs) = run_from gen (fst (perform gen s ev)) evs"

definition run :: "(summaryInput \<Rightarrow> 'sum) \<Rightarrow> operation list \<Rightarrow> 'sum session" where
  "run gen evs = run_from gen initialSession evs"

text \<open>
  Two facts every handler maintains: a recording session has a start time, and a
  completed one has a summary.
\<close>

definition consistent :: "'sum session \<Rightarrow> bool" where
  "consistent s \<longleftrightarrow>
     (isRecording s \<longrightarrow> sessionStartTime s \<noteq> None) \<and>
     (sessionComplete s \<longrightarrow> sessionSummary s \<noteq> None)"

text \<open>No handler leaves the recording flag and the completion flag set together.\<close>

definition exclusive :: "'sum session \<Rightarrow> bool" where
  "exclusive s \<longleftrightarrow> \<not> (isRecording s \<and> sessionComplete s)"

text \<open>The invariant of the data model: a summary is stored exactly in \<open>Complete\<close>.\<close>

definition summary_iff_complete :: "'sum session \<Rightarrow> bool" where
  "summary_iff_complete s \<longleftrightarrow> (sessionSummary s \<noteq> None) = (status_of s = Complete)"

section \<open>Sample inputs\<close>

text \<open>Telemetry whose three fields are numbers, and a camera with every guard satisfied.\<close>

definition telemetry :: "real \<Rightarrow> real \<Rightarrow> int \<Rightarrow> focusStats" where
  "telemetry a p td = \<lparr>attentionScore = JNum a, posture = JNum p, timeDistracted = JNum td\<rparr>"

definition liveCamera :: camera where
  "liveCamera =
     \<lparr>isActive = True, facingCamera = True, webcamReady = True, videoElement = True\<rparr>"

section \<open>Auxiliary facts\<close>

lemmas handler_defs =
  handleConsentApproved_def handleConsentDeclined_def handleStartSession_def
  handleEndSession_def handleResetSession_def

lemma falsy_or_zero: "falsy v \<Longrightarrow> or_zero v = 0"
  by (cases v) simp_all

lemma floor_seconds: "\<lfloor>real_of_int k / 1000\<rfloor> = k div 1000"
  by (metis floor_divide_of_int_eq of_int_numeral)

lemma status_Recording_iff: "status_of s = Recording \<longleftrightarrow> isRecording s"
  by (simp add: status_of_def split: option.splits bool.splits)

lemma status_Complete_iff: "status_of s = Complete \<longleftrightarrow> \<not> isRecording s \<and> sessionComplete s"
  by (simp add: status_of_def split: option.splits bool.splits)

lemma perform_consistent: "consistent s \<Longrightarrow> consistent (fst (perform gen s ev))"
  by (cases ev) (simp_all add: consistent_def handler_defs Let_def)

lemma run_from_consistent: "consistent s \<Longrightarrow> consistent (run_from gen s evs)"
  by (induction evs arbitrary: s) (simp_all add: perform_consistent)

lemma initial_consistent: "consistent initialSession"
  by (simp add: consistent_def initialSession_def)

lemma run_consistent: "consistent (run gen evs)"
  unfolding run_def by (rule run_from_consistent [OF initial_consistent])

lemma perform_exclusive: "exclusive s \<Longrightarrow> exclusive (fst (perform gen s ev))"
  by (cases ev) (simp_all add: exclusive_def handler_defs Let_def)

lemma run_from_exclusive: "exclusive s \<Longrightarrow> exclusive (run_from gen s evs)"
  by (induction evs arbitrary: s) (simp_all add: perform_exclusive)

lemma run_exclusive: "exclusive (run gen evs)"
  unfolding run_def by (rule run_from_exclusive) (simp add: exclusive_def initialSession_def)

section \<open>Facts about rounding\<close>

lemma round_even_near:
  assumes a: "\<bar>y - of_int m\<bar> < 1 / 2"
  shows "round_even y = m"
proof (cases "of_int m \<le> y")
  case True
  have "\<lfloor>y\<rfloor> = m"
  proof (rule floor_unique)
    show "of_int m \<le> y" by (rule True)
    show "y < of_int m + 1" using a by linarith
  qed
  moreover have "y - of_int m < 1 / 2" using a by linarith
  ultimately show ?thesis by (simp add: round_even_def Let_def)
next
  case False
  have m1: "real_of_int (m - 1) = real_of_int m - 1" by simp
  have f: "\<lfloor>y\<rfloor> = m - 1"
  proof (rule floor_unique)
    show "of_int (m - 1) \<le> y" using a m1 by linarith
    show "y < of_int (m - 1) + 1" using False m1 by linarith
  qed
  have "1 / 2 < y - of_int (m - 1)" using a False m1 by linarith
  then have "\<not> y - of_int (m - 1) < 1 / 2" by linarith
  with f \<open>1 / 2 < y - of_int (m - 1)\<close> show ?thesis
    by (simp add: round_even_def Let_def)
qed

lemma round_even_tie:
  assumes a: "y = of_int m + 1 / 2"
  shows "round_even y = (if even m then m else m + 1)"
proof -
  have "\<lfloor>y\<rfloor> = m"
  proof (rule floor_unique)
    show "of_int m \<le> y" using a by simp
    show "y < of_int m + 1" using a by simp
  qed
  with a show ?thesis by (simp add: round_even_def Let_def)
qed

lemma round_even_error: "\<bar>of_int (round_even y) - y\<bar> \<le> 1 / 2"
proof -
  have "of_int \<lfloor>y\<rfloor> \<le> y" "y < of_int \<lfloor>y\<rfloor> + 1" by linarith+
  then show ?thesis
    unfolding round_even_def Let_def by (auto simp: abs_le_iff; linarith)
qed

lemma bitlen_scaled:
  fixes y :: real
  assumes lo: "2 powi e \<le> y" and hi: "y < 2 powi (e + 1)" and e: "0 \<le> e + int N"
  shows "bitlen \<lfloor>y * 2 ^ N\<rfloor> = e + int N + 1"
proof -
  define k where "k = nat (e + int N)"
  from e have k: "int k = e + int N" by (simp add: k_def)
  have "(2::real) powi e * 2 powi (int N) = 2 powi (e + int N)"
    by (simp add: power_int_add)
  then have p: "(2::real) powi e * 2 ^ N = 2 ^ k"
    unfolding k [symmetric] by (simp only: power_int_of_nat)
  have "(2::real) powi (e + 1) * 2 powi (int N) = 2 powi (int k + 1)"
    unfolding k by (simp add: power_int_add)
  also have "int k + 1 = int (Suc k)" by simp
  finally have p1: "(2::real) powi (e + 1) * 2 ^ N = 2 ^ Suc k"
    by (simp only: power_int_of_nat)
  let ?n = "\<lfloor>y * 2 ^ N\<rfloor>"
  from lo have "2 powi e * 2 ^ N \<le> y * 2 ^ N"
    by (intro mult_right_mono) auto
  then have "(2::real) ^ k \<le> y * 2 ^ N" by (simp only: p)
  then have "real_of_int (2 ^ k) \<le> y * 2 ^ N" by simp
  then have ge: "2 ^ k \<le> ?n" by (simp only: le_floor_iff)
  from hi have "y * 2 ^ N < 2 powi (e + 1) * 2 ^ N"
    by (intro mult_strict_right_mono) auto
  then have "y * 2 ^ N < 2 ^ Suc k" by (simp only: p1)
  then have "y * 2 ^ N < real_of_int (2 ^ Suc k)" by simp
  then have lt: "?n < 2 ^ Suc k" by (simp only: floor_less_iff)
  have nS: "nat (int (Suc k)) = Suc k" "nat (int (Suc k)) - 1 = k" by simp_all
  from lt have "bitlen ?n \<le> int (Suc k)"
    by (subst bitlen_le_iff_power) (simp only: nS, simp)
  moreover from ge have "int (Suc k) \<le> bitlen ?n"
    by (subst bitlen_ge_iff_power) (simp only: nS, simp)
  ultimately show ?thesis using k by simp
qed

lemma int_subnormal_bits: "int subnormal_bits = 1074"
  by (simp add: subnormal_bits_def)

lemma expo_eq:
  assumes lo: "2 powi e \<le> \<bar>x\<bar>" and hi: "\<bar>x\<bar> < 2 powi (e + 1)" and e: "- 1022 \<le> e"
  shows "expo x = e"
proof -
  from e have "0 \<le> e + int subnormal_bits"
    by (simp add: int_subnormal_bits)
  from bitlen_scaled [OF lo hi this]
  have "bitlen \<lfloor>\<bar>x\<bar> * 2 ^ subnormal_bits\<rfloor> - int subnormal_bits - 1 = e"
    by simp
  with e show ?thesis
    unfolding expo_def by simp
qed

lemma round64_zero: "round64 0 = 0"
  by (simp add: round64_def Let_def)

lemma two_le_overflow: "2 \<le> overflow"
  by (simp add: overflow_def)

lemma round64_pos:
  assumes lo: "2 powi e \<le> x" and hi: "x < 2 powi (e + 1)" and e: "- 1022 \<le> e"
    and small: "real_of_int m * 2 powi (e - 52) \<le> 2"
    and m: "round_even (x / 2 powi (e - 52)) = m"
  shows "round64 x = real_of_int m * 2 powi (e - 52)"
proof -
  have "0 < (2::real) powi e" by simp
  with lo have pos: "0 < x" by linarith
  then have ax: "\<bar>x\<bar> = x" and sx: "sgn x = 1" by simp_all
  from lo hi have "expo x = e"
    by (intro expo_eq) (simp_all only: ax e)
  with m ax sx have "round64 x = min (real_of_int m * 2 powi (e - 52)) overflow"
    by (simp add: round64_def Let_def)
  with small two_le_overflow show ?thesis by simp
qed


lemma expo_le_zero:
  assumes "\<bar>x\<bar> < 2"
  shows "expo x \<le> 0"
proof -
  let ?n = "\<lfloor>\<bar>x\<bar> * 2 ^ subnormal_bits\<rfloor>"
  from assms have "\<bar>x\<bar> * 2 ^ subnormal_bits < 2 * 2 ^ subnormal_bits"
    by (intro mult_strict_right_mono) auto
  then have "\<bar>x\<bar> * 2 ^ subnormal_bits < real_of_int (2 ^ Suc subnormal_bits)"
    by simp
  then have "?n < 2 ^ Suc subnormal_bits"
    by (simp only: floor_less_iff)
  then have "bitlen ?n \<le> int (Suc subnormal_bits)"
    by (subst bitlen_le_iff_power) (simp only: nat_int, simp)
  then show ?thesis
    unfolding expo_def by simp
qed

lemma round64_error:
  assumes x: "\<bar>x\<bar> < 2"
  shows "\<bar>round64 x - x\<bar> \<le> 1 / 2 ^ 53"
proof -
  define q :: real where "q = 2 powi (expo x - 52)"
  define y where "y = real_of_int (round_even (\<bar>x\<bar> / q)) * q"
  have q0: "0 < q" by (simp add: q_def)
  have "q \<le> 2 powi (- 52)"
    unfolding q_def using expo_le_zero [OF x] by (intro power_int_increasing) auto
  moreover have "(2::real) powi (- 52) = 1 / 2 ^ 52"
    by (simp add: inverse_eq_divide)
  ultimately have q52: "q \<le> 1 / 2 ^ 52"
    by (simp only:)
  have "\<bar>real_of_int (round_even (\<bar>x\<bar> / q)) - \<bar>x\<bar> / q\<bar> \<le> 1 / 2"
    by (rule round_even_error)
  then have "\<bar>real_of_int (round_even (\<bar>x\<bar> / q)) - \<bar>x\<bar> / q\<bar> * q \<le> 1 / 2 * q"
    using q0 by (intro mult_right_mono) auto
  moreover have "y - \<bar>x\<bar> = (real_of_int (round_even (\<bar>x\<bar> / q)) - \<bar>x\<bar> / q) * q"
    using q0 by (simp add: y_def field_simps)
  then have "\<bar>real_of_int (round_even (\<bar>x\<bar> / q)) - \<bar>x\<bar> / q\<bar> * q = \<bar>y - \<bar>x\<bar>\<bar>"
    using q0 by (simp add: abs_mult)
  ultimately have err: "\<bar>y - \<bar>x\<bar>\<bar> \<le> q / 2" by simp
  with q52 have err53: "\<bar>y - \<bar>x\<bar>\<bar> \<le> 1 / 2 ^ 53" by simp
  have "(1::real) / 2 ^ 53 \<le> 1" by simp
  with err53 x have "y \<le> 3" by linarith
  also have "3 \<le> overflow" by (simp add: overflow_def)
  finally have "min y overflow = y" by simp
  then have r: "round64 x = sgn x * y"
    by (simp add: round64_def Let_def q_def y_def)
  have "\<bar>sgn x * y - x\<bar> \<le> \<bar>y - \<bar>x\<bar>\<bar>"
    by (cases "x = 0"; cases "0 < x") (simp_all add: sgn_if abs_if)
  with err53 r show ?thesis by simp
qed

section \<open>Doubles of the literals and of the sample scores\<close>

text \<open>
  Each value below is one rounding, checked against the definition of \<open>round64\<close> at the
  exponent of its argument: the literals, and for each pair of sample scores the product
  with each weight and the sum. The pairs are A (0.9, 0.9), B (0.2, 0.2), C (0.5, 0.5),
  D (0.7, 0.7), E (0.65, 0.65), F (0.4, 0.4), G (0.5625, 0.15625) and
  H (0.75, \<open>0.5 + 2 powi (- 53)\<close>).
\<close>

lemma round64_lit_06: "round64 (0.6) = 5404319552844595 / 2 ^ 53"
proof -
  have "round_even ((0.6) / 2 powi (-1 - 52)) = 5404319552844595"
    by (rule round_even_near) simp
  from round64_pos [of "-1" "0.6" "5404319552844595", OF _ _ _ _ this] show ?thesis
    by simp
qed

lemma round64_lit_04: "round64 (0.4) = 7205759403792794 / 2 ^ 54"
proof -
  have "round_even ((0.4) / 2 powi (-2 - 52)) = 7205759403792794"
    by (rule round_even_near) simp
  from round64_pos [of "-2" "0.4" "7205759403792794", OF _ _ _ _ this] show ?thesis
    by simp
qed

lemma round64_lit_065: "round64 (0.65) = 5854679515581645 / 2 ^ 53"
proof -
  have "round_even ((0.65) / 2 powi (-1 - 52)) = 5854679515581645"
    by (rule round_even_near) simp
  from round64_pos [of "-1" "0.65" "5854679515581645", OF _ _ _ _ this] show ?thesis
    by simp
qed

lemma round64_lit_08: "round64 (0.8) = 7205759403792794 / 2 ^ 53"
proof -
  have "round_even ((0.8) / 2 powi (-1 - 52)) = 7205759403792794"
    by (rule round_even_near) simp
  from round64_pos [of "-1" "0.8" "7205759403792794", OF _ _ _ _ this] show ?thesis
    by simp
qed

lemma round64_lit_03: "round64 (0.3) = 5404319552844595 / 2 ^ 54"
proof -
  have "round_even ((0.3) / 2 powi (-2 - 52)) = 5404319552844595"
    by (rule round_even_near) simp
  from round64_pos [of "-2" "0.3" "5404319552844595", OF _ _ _ _ this] show ?thesis
    by simp
qed

lemma round64_lit_09: "round64 (0.9) = 8106479329266893 / 2 ^ 53"
proof -
  have "round_even ((0.9) / 2 powi (-1 - 52)) = 8106479329266893"
    by (rule round_even_near) simp
  from round64_pos [of "-1" "0.9" "8106479329266893", OF _ _ _ _ this] show ?thesis
    by simp
qed

lemma round64_lit_02: "round64 (0.2) = 7205759403792794 / 2 ^ 55"
proof -
  have "round_even ((0.2) / 2 powi (-3 - 52)) = 7205759403792794"
    by (rule round_even_near) simp
  from round64_pos [of "-3" "0.2" "7205759403792794", OF _ _ _ _ this] show ?thesis
    by simp
qed

lemma round64_lit_05: "round64 (0.5) = 4503599627370496 / 2 ^ 53"
proof -
  have "round_even ((0.5) / 2 powi (-1 - 52)) = 4503599627370496"
    by (rule round_even_near) simp
  from round64_pos [of "-1" "0.5" "4503599627370496", OF _ _ _ _ this] show ?thesis
    by simp
qed

lemma round64_lit_07: "round64 (0.7) = 6305039478318694 / 2 ^ 53"
proof -
  have "round_even ((0.7) / 2 powi (-1 - 52)) = 6305039478318694"
    by (rule round_even_near) simp
  from round64_pos [of "-1" "0.7" "6305039478318694", OF _ _ _ _ this] show ?thesis
    by simp
qed

lemma score_A_attention: "round64 (8106479329266893 / 2 ^ 53 * (5404319552844595 / 2 ^ 53)) = 4863887597560136 / 2 ^ 53"
proof -
  have "round_even ((8106479329266893 / 2 ^ 53 * (5404319552844595 / 2 ^ 53)) / 2 powi (-1 - 52)) = 4863887597560136"
    by (rule round_even_near) simp
  from round64_pos [of "-1" "8106479329266893 / 2 ^ 53 * (5404319552844595 / 2 ^ 53)" "4863887597560136", OF _ _ _ _ this] show ?thesis
    by simp
qed

lemma score_A_posture: "round64 (8106479329266893 / 2 ^ 53 * (7205759403792794 / 2 ^ 54)) = 6485183463413515 / 2 ^ 54"
proof -
  have "round_even ((8106479329266893 / 2 ^ 53 * (7205759403792794 / 2 ^ 54)) / 2 powi (-2 - 52)) = 6485183463413515"
    by (rule round_even_near) simp
  from round64_pos [of "-2" "8106479329266893 / 2 ^ 53 * (7205759403792794 / 2 ^ 54)" "6485183463413515", OF _ _ _ _ this] show ?thesis
    by simp
qed

lemma score_A_sum: "round64 (4863887597560136 / 2 ^ 53 + 6485183463413515 / 2 ^ 54) = 8106479329266894 / 2 ^ 53"
proof -
  have "round_even ((4863887597560136 / 2 ^ 53 + 6485183463413515 / 2 ^ 54) / 2 powi (-1 - 52)) = 8106479329266894"
    using round_even_tie [of "(4863887597560136 / 2 ^ 53 + 6485183463413515 / 2 ^ 54) / 2 powi (-1 - 52)" "8106479329266893"] by simp
  from round64_pos [of "-1" "4863887597560136 / 2 ^ 53 + 6485183463413515 / 2 ^ 54" "8106479329266894", OF _ _ _ _ this] show ?thesis
    by simp
qed

lemma score_B_attention: "round64 (7205759403792794 / 2 ^ 55 * (5404319552844595 / 2 ^ 53)) = 8646911284551352 / 2 ^ 56"
proof -
  have "round_even ((7205759403792794 / 2 ^ 55 * (5404319552844595 / 2 ^ 53)) / 2 powi (-4 - 52)) = 8646911284551352"
    by (rule round_even_near) simp
  from round64_pos [of "-4" "7205759403792794 / 2 ^ 55 * (5404319552844595 / 2 ^ 53)" "8646911284551352", OF _ _ _ _ this] show ?thesis
    by simp
qed

lemma score_B_posture: "round64 (7205759403792794 / 2 ^ 55 * (7205759403792794 / 2 ^ 54)) = 5764607523034236 / 2 ^ 56"
proof -
  have "round_even ((7205759403792794 / 2 ^ 55 * (7205759403792794 / 2 ^ 54)) / 2 powi (-4 - 52)) = 5764607523034236"
    by (rule round_even_near) simp
  from round64_pos [of "-4" "7205759403792794 / 2 ^ 55 * (7205759403792794 / 2 ^ 54)" "5764607523034236", OF _ _ _ _ this] show ?thesis
    by simp
qed

lemma score_B_sum: "round64 (8646911284551352 / 2 ^ 56 + 5764607523034236 / 2 ^ 56) = 7205759403792794 / 2 ^ 55"
proof -
  have "round_even ((8646911284551352 / 2 ^ 56 + 5764607523034236 / 2 ^ 56) / 2 powi (-3 - 52)) = 7205759403792794"
    by (rule round_even_near) simp
  from round64_pos [of "-3" "8646911284551352 / 2 ^ 56 + 5764607523034236 / 2 ^ 56" "7205759403792794", OF _ _ _ _ this] show ?thesis
    by simp
qed

lemma score_C_attention: "round64 (4503599627370496 / 2 ^ 53 * (5404319552844595 / 2 ^ 53)) = 5404319552844595 / 2 ^ 54"
proof -
  have "round_even ((4503599627370496 / 2 ^ 53 * (5404319552844595 / 2 ^ 53)) / 2 powi (-2 - 52)) = 5404319552844595"
    by (rule round_even_near) simp
  from round64_pos [of "-2" "4503599627370496 / 2 ^ 53 * (5404319552844595 / 2 ^ 53)" "5404319552844595", OF _ _ _ _ this] show ?thesis
    by simp
qed

lemma score_C_posture: "round64 (4503599627370496 / 2 ^ 53 * (7205759403792794 / 2 ^ 54)) = 7205759403792794 / 2 ^ 55"
proof -
  have "round_even ((4503599627370496 / 2 ^ 53 * (7205759403792794 / 2 ^ 54)) / 2 powi (-3 - 52)) = 7205759403792794"
    by (rule round_even_near) simp
  from round64_pos [of "-3" "4503599627370496 / 2 ^ 53 * (7205759403792794 / 2 ^ 54)" "7205759403792794", OF _ _ _ _ this] show ?thesis
    by simp
qed

lemma score_C_sum: "round64 (5404319552844595 / 2 ^ 54 + 7205759403792794 / 2 ^ 55) = 4503599627370496 / 2 ^ 53"
proof -
  have "round_even ((5404319552844595 / 2 ^ 54 + 7205759403792794 / 2 ^ 55) / 2 powi (-1 - 52)) = 4503599627370496"
    by (rule round_even_near) simp
  from round64_pos [of "-1" "5404319552844595 / 2 ^ 54 + 7205759403792794 / 2 ^ 55" "4503599627370496", OF _ _ _ _ this] show ?thesis
    by simp
qed

lemma score_D_attention: "round64 (6305039478318694 / 2 ^ 53 * (5404319552844595 / 2 ^ 53)) = 7566047373982433 / 2 ^ 54"
proof -
  have "round_even ((6305039478318694 / 2 ^ 53 * (5404319552844595 / 2 ^ 53)) / 2 powi (-2 - 52)) = 7566047373982433"
    by (rule round_even_near) simp
  from round64_pos [of "-2" "6305039478318694 / 2 ^ 53 * (5404319552844595 / 2 ^ 53)" "7566047373982433", OF _ _ _ _ this] show ?thesis
    by simp
qed

lemma score_D_posture: "round64 (6305039478318694 / 2 ^ 53 * (7205759403792794 / 2 ^ 54)) = 5044031582654955 / 2 ^ 54"
proof -
  have "round_even ((6305039478318694 / 2 ^ 53 * (7205759403792794 / 2 ^ 54)) / 2 powi (-2 - 52)) = 5044031582654955"
    by (rule round_even_near) simp
  from round64_pos [of "-2" "6305039478318694 / 2 ^ 53 * (7205759403792794 / 2 ^ 54)" "5044031582654955", OF _ _ _ _ this] show ?thesis
    by simp
qed

lemma score_D_sum: "round64 (7566047373982433 / 2 ^ 54 + 5044031582654955 / 2 ^ 54) = 6305039478318694 / 2 ^ 53"
proof -
  have "round_even ((7566047373982433 / 2 ^ 54 + 5044031582654955 / 2 ^ 54) / 2 powi (-1 - 52)) = 6305039478318694"
    by (rule round_even_near) simp
  from round64_pos [of "-1" "7566047373982433 / 2 ^ 54 + 5044031582654955 / 2 ^ 54" "6305039478318694", OF _ _ _ _ this] show ?thesis
    by simp
qed

lemma score_E_attention: "round64 (5854679515581645 / 2 ^ 53 * (5404319552844595 / 2 ^ 53)) = 7025615418697974 / 2 ^ 54"
proof -
  have "round_even ((5854679515581645 / 2 ^ 53 * (5404319552844595 / 2 ^ 53)) / 2 powi (-2 - 52)) = 7025615418697974"
    by (rule round_even_near) simp
  from round64_pos [of "-2" "5854679515581645 / 2 ^ 53 * (5404319552844595 / 2 ^ 53)" "7025615418697974", OF _ _ _ _ this] show ?thesis
    by simp
qed

lemma score_E_posture: "round64 (5854679515581645 / 2 ^ 53 * (7205759403792794 / 2 ^ 54)) = 4683743612465316 / 2 ^ 54"
proof -
  have "round_even ((5854679515581645 / 2 ^ 53 * (7205759403792794 / 2 ^ 54)) / 2 powi (-2 - 52)) = 4683743612465316"
    by (rule round_even_near) simp
  from round64_pos [of "-2" "5854679515581645 / 2 ^ 53 * (7205759403792794 / 2 ^ 54)" "4683743612465316", OF _ _ _ _ this] show ?thesis
    by simp
qed

lemma score_E_sum: "round64 (7025615418697974 / 2 ^ 54 + 4683743612465316 / 2 ^ 54) = 5854679515581645 / 2 ^ 53"
proof -
  have "round_even ((7025615418697974 / 2 ^ 54 + 4683743612465316 / 2 ^ 54) / 2 powi (-1 - 52)) = 5854679515581645"
    by (rule round_even_near) simp
  from round64_pos [of "-1" "7025615418697974 / 2 ^ 54 + 4683743612465316 / 2 ^ 54" "5854679515581645", OF _ _ _ _ this] show ?thesis
    by simp
qed

lemma score_F_attention: "round64 (7205759403792794 / 2 ^ 54 * (5404319552844595 / 2 ^ 53)) = 8646911284551352 / 2 ^ 55"
proof -
  have "round_even ((7205759403792794 / 2 ^ 54 * (5404319552844595 / 2 ^ 53)) / 2 powi (-3 - 52)) = 8646911284551352"
    by (rule round_even_near) simp
  from round64_pos [of "-3" "7205759403792794 / 2 ^ 54 * (5404319552844595 / 2 ^ 53)" "8646911284551352", OF _ _ _ _ this] show ?thesis
    by simp
qed

lemma score_F_posture: "round64 (7205759403792794 / 2 ^ 54 * (7205759403792794 / 2 ^ 54)) = 5764607523034236 / 2 ^ 55"
proof -
  have "round_even ((7205759403792794 / 2 ^ 54 * (7205759403792794 / 2 ^ 54)) / 2 powi (-3 - 52)) = 5764607523034236"
    by (rule round_even_near) simp
  from round64_pos [of "-3" "7205759403792794 / 2 ^ 54 * (7205759403792794 / 2 ^ 54)" "5764607523034236", OF _ _ _ _ this] show ?thesis
    by simp
qed

lemma score_F_sum: "round64 (8646911284551352 / 2 ^ 55 + 5764607523034236 / 2 ^ 55) = 7205759403792794 / 2 ^ 54"
proof -
  have "round_even ((8646911284551352 / 2 ^ 55 + 5764607523034236 / 2 ^ 55) / 2 powi (-2 - 52)) = 7205759403792794"
    by (rule round_even_near) simp
  from round64_pos [of "-2" "8646911284551352 / 2 ^ 55 + 5764607523034236 / 2 ^ 55" "7205759403792794", OF _ _ _ _ this] show ?thesis
    by simp
qed

lemma score_G_attention: "round64 (9 / 16 * (5404319552844595 / 2 ^ 53)) = 6079859496950169 / 2 ^ 54"
proof -
  have "round_even ((9 / 16 * (5404319552844595 / 2 ^ 53)) / 2 powi (-2 - 52)) = 6079859496950169"
    by (rule round_even_near) simp
  from round64_pos [of "-2" "9 / 16 * (5404319552844595 / 2 ^ 53)" "6079859496950169", OF _ _ _ _ this] show ?thesis
    by simp
qed

lemma score_G_posture: "round64 (5 / 32 * (7205759403792794 / 2 ^ 54)) = 4503599627370496 / 2 ^ 56"
proof -
  have "round_even ((5 / 32 * (7205759403792794 / 2 ^ 54)) / 2 powi (-4 - 52)) = 4503599627370496"
    by (rule round_even_near) simp
  from round64_pos [of "-4" "5 / 32 * (7205759403792794 / 2 ^ 54)" "4503599627370496", OF _ _ _ _ this] show ?thesis
    by simp
qed

lemma score_G_sum: "round64 (6079859496950169 / 2 ^ 54 + 4503599627370496 / 2 ^ 56) = 7205759403792793 / 2 ^ 54"
proof -
  have "round_even ((6079859496950169 / 2 ^ 54 + 4503599627370496 / 2 ^ 56) / 2 powi (-2 - 52)) = 7205759403792793"
    by (rule round_even_near) simp
  from round64_pos [of "-2" "6079859496950169 / 2 ^ 54 + 4503599627370496 / 2 ^ 56" "7205759403792793", OF _ _ _ _ this] show ?thesis
    by simp
qed

lemma score_H_attention: "round64 (3 / 4 * (5404319552844595 / 2 ^ 53)) = 8106479329266892 / 2 ^ 54"
proof -
  have "round_even ((3 / 4 * (5404319552844595 / 2 ^ 53)) / 2 powi (-2 - 52)) = 8106479329266892"
    using round_even_tie [of "(3 / 4 * (5404319552844595 / 2 ^ 53)) / 2 powi (-2 - 52)" "8106479329266892"] by simp
  from round64_pos [of "-2" "3 / 4 * (5404319552844595 / 2 ^ 53)" "8106479329266892", OF _ _ _ _ this] show ?thesis
    by simp
qed

lemma score_H_posture: "round64 ((1 / 2 + 1 / 2 ^ 53) * (7205759403792794 / 2 ^ 54)) = 7205759403792796 / 2 ^ 55"
proof -
  have "round_even (((1 / 2 + 1 / 2 ^ 53) * (7205759403792794 / 2 ^ 54)) / 2 powi (-3 - 52)) = 7205759403792796"
    by (rule round_even_near) simp
  from round64_pos [of "-3" "(1 / 2 + 1 / 2 ^ 53) * (7205759403792794 / 2 ^ 54)" "7205759403792796", OF _ _ _ _ this] show ?thesis
    by simp
qed

lemma score_H_sum: "round64 (8106479329266892 / 2 ^ 54 + 7205759403792796 / 2 ^ 55) = 5854679515581645 / 2 ^ 53"
proof -
  have "round_even ((8106479329266892 / 2 ^ 54 + 7205759403792796 / 2 ^ 55) / 2 powi (-1 - 52)) = 5854679515581645"
    by (rule round_even_near) simp
  from round64_pos [of "-1" "8106479329266892 / 2 ^ 54 + 7205759403792796 / 2 ^ 55" "5854679515581645", OF _ _ _ _ this] show ?thesis
    by simp
qed

text \<open>The literals of the source and of the sample inputs.\<close>

lemma dbl_06: "dbl 0.6 = 5404319552844595 / 2 ^ 53"
  by (simp only: dbl_def round64_lit_06)

lemma dbl_04: "dbl 0.4 = 7205759403792794 / 2 ^ 54"
  by (simp only: dbl_def round64_lit_04)

lemma dbl_065: "dbl 0.65 = 5854679515581645 / 2 ^ 53"
  by (simp only: dbl_def round64_lit_065)

lemma dbl_08: "dbl 0.8 = 7205759403792794 / 2 ^ 53"
  by (simp only: dbl_def round64_lit_08)

lemma dbl_03: "dbl 0.3 = 5404319552844595 / 2 ^ 54"
  by (simp only: dbl_def round64_lit_03)

lemma dbl_09: "dbl 0.9 = 8106479329266893 / 2 ^ 53"
  by (simp only: dbl_def round64_lit_09)

lemma dbl_02: "dbl 0.2 = 7205759403792794 / 2 ^ 55"
  by (simp only: dbl_def round64_lit_02)

lemma dbl_05: "dbl 0.5 = 4503599627370496 / 2 ^ 53"
  by (simp only: dbl_def round64_lit_05)

lemma dbl_07: "dbl 0.7 = 6305039478318694 / 2 ^ 53"
  by (simp only: dbl_def round64_lit_07)

text \<open>The weighted score of each sample input: two products and their sum.\<close>

lemma score_A: "attentivenessScore (dbl 0.9) (dbl 0.9) = 8106479329266894 / 2 ^ 53"
  by (simp only: attentivenessScore_def dbl_def round64_lit_06 round64_lit_04 round64_lit_065 round64_lit_08 round64_lit_03 round64_lit_09 round64_lit_02 round64_lit_05 round64_lit_07
        score_A_attention score_A_posture score_A_sum)

lemma score_B: "attentivenessScore (dbl 0.2) (dbl 0.2) = 7205759403792794 / 2 ^ 55"
  by (simp only: attentivenessScore_def dbl_def round64_lit_06 round64_lit_04 round64_lit_065 round64_lit_08 round64_lit_03 round64_lit_09 round64_lit_02 round64_lit_05 round64_lit_07
        score_B_attention score_B_posture score_B_sum)

lemma score_C: "attentivenessScore (dbl 0.5) (dbl 0.5) = 4503599627370496 / 2 ^ 53"
  by (simp only: attentivenessScore_def dbl_def round64_lit_06 round64_lit_04 round64_lit_065 round64_lit_08 round64_lit_03 round64_lit_09 round64_lit_02 round64_lit_05 round64_lit_07
        score_C_attention score_C_posture score_C_sum)

lemma score_D: "attentivenessScore (dbl 0.7) (dbl 0.7) = 6305039478318694 / 2 ^ 53"
  by (simp only: attentivenessScore_def dbl_def round64_lit_06 round64_lit_04 round64_lit_065 round64_lit_08 round64_lit_03 round64_lit_09 round64_lit_02 round64_lit_05 round64_lit_07
        score_D_attention score_D_posture score_D_sum)

lemma score_E: "attentivenessScore (dbl 0.65) (dbl 0.65) = 5854679515581645 / 2 ^ 53"
  by (simp only: attentivenessScore_def dbl_def round64_lit_06 round64_lit_04 round64_lit_065 round64_lit_08 round64_lit_03 round64_lit_09 round64_lit_02 round64_lit_05 round64_lit_07
        score_E_attention score_E_posture score_E_sum)

lemma score_F: "attentivenessScore (dbl 0.4) (dbl 0.4) = 7205759403792794 / 2 ^ 54"
  by (simp only: attentivenessScore_def dbl_def round64_lit_06 round64_lit_04 round64_lit_065 round64_lit_08 round64_lit_03 round64_lit_09 round64_lit_02 round64_lit_05 round64_lit_07
        score_F_attention score_F_posture score_F_sum)

lemma score_G: "attentivenessScore (9 / 16) (5 / 32) = 7205759403792793 / 2 ^ 54"
  by (simp only: attentivenessScore_def dbl_def round64_lit_06 round64_lit_04 round64_lit_065 round64_lit_08 round64_lit_03 round64_lit_09 round64_lit_02 round64_lit_05 round64_lit_07
        score_G_attention score_G_posture score_G_sum)

lemma score_H: "attentivenessScore (3 / 4) (1 / 2 + 1 / 2 ^ 53) = 5854679515581645 / 2 ^ 53"
  by (simp only: attentivenessScore_def dbl_def round64_lit_06 round64_lit_04 round64_lit_065 round64_lit_08 round64_lit_03 round64_lit_09 round64_lit_02 round64_lit_05 round64_lit_07
        score_H_attention score_H_posture score_H_sum)

section \<open>Facts about the analyzer\<close>

lemma or_zero_JNum: "or_zero (JNum x) = x"
  by simp

lemma score_zero: "attentivenessScore 0 0 = 0"
  by (simp add: attentivenessScore_def round64_zero)

lemma thresholds_positive: "0 < dbl 0.65" "0 < dbl 0.4" "0 < dbl 0.3"
  by (simp_all only: dbl_065 dbl_04 dbl_03, simp_all)

text \<open>The state, and the reading of each branch, in terms of the comparisons made.\<close>

lemma state_cases:
  "attentivenessState (analyzeAttentiveness (telemetry a p td) r) =
     (if dbl 0.65 < attentivenessScore a p then Attentive
      else if attentivenessScore a p < dbl 0.4 \<or> 5 < td then Distracted
      else Unknown)"
  by (simp add: analyzeAttentiveness_def telemetry_def Let_def)

lemma attentive_strong:
  "dbl 0.65 < attentivenessScore a p \<Longrightarrow> dbl 0.8 < a \<Longrightarrow>
   analyzeAttentiveness (telemetry a p td) r =
     \<lparr>attentivenessState = Attentive,
      attentivenessDescription = ''Strong engagement detected''\<rparr>"
  by (simp add: analyzeAttentiveness_def telemetry_def Let_def)

lemma attentive_drawn:
  "dbl 0.65 < attentivenessScore a p \<Longrightarrow> \<not> dbl 0.8 < a \<Longrightarrow> \<not> dbl 0.8 < p \<Longrightarrow>
   analyzeAttentiveness (telemetry a p td) r =
     \<lparr>attentivenessState = Attentive,
      attentivenessDescription = pick descriptions r\<rparr>"
  by (simp add: analyzeAttentiveness_def telemetry_def Let_def)

lemma distracted_limited:
  "\<not> dbl 0.65 < attentivenessScore a p \<Longrightarrow> attentivenessScore a p < dbl 0.4 \<Longrightarrow>
   a < dbl 0.3 \<Longrightarrow>
   analyzeAttentiveness (telemetry a p td) r =
     \<lparr>attentivenessState = Distracted,
      attentivenessDescription = ''Limited screen focus detected''\<rparr>"
  by (simp add: analyzeAttentiveness_def telemetry_def Let_def)

lemma unknown_processing:
  "\<not> dbl 0.65 < attentivenessScore a p \<Longrightarrow> \<not> attentivenessScore a p < dbl 0.4 \<Longrightarrow>
   \<not> 5 < td \<Longrightarrow>
   analyzeAttentiveness (telemetry a p td) r =
     \<lparr>attentivenessState = Unknown,
      attentivenessDescription = ''Processing attention patterns...''\<rparr>"
  by (simp add: analyzeAttentiveness_def telemetry_def Let_def)

text \<open>The comparisons at the sample inputs.\<close>

lemma score_A_high: "dbl 0.65 < attentivenessScore (dbl 0.9) (dbl 0.9)"
  by (simp only: score_A, simp only: dbl_065, simp)

lemma literal_09_high: "dbl 0.8 < dbl 0.9"
  by (simp only: dbl_08 dbl_09, simp)

lemma score_B_not_high: "\<not> dbl 0.65 < attentivenessScore (dbl 0.2) (dbl 0.2)"
  by (simp only: score_B, simp only: dbl_065, simp)

lemma score_B_low: "attentivenessScore (dbl 0.2) (dbl 0.2) < dbl 0.4"
  by (simp only: score_B, simp only: dbl_04, simp)

lemma literal_02_low: "dbl 0.2 < dbl 0.3"
  by (simp only: dbl_02 dbl_03, simp)

lemma score_C_not_high: "\<not> dbl 0.65 < attentivenessScore (dbl 0.5) (dbl 0.5)"
  by (simp only: score_C, simp only: dbl_065, simp)

lemma score_C_not_low: "\<not> attentivenessScore (dbl 0.5) (dbl 0.5) < dbl 0.4"
  by (simp only: score_C, simp only: dbl_04, simp)

lemma score_D_high: "dbl 0.65 < attentivenessScore (dbl 0.7) (dbl 0.7)"
  by (simp only: score_D, simp only: dbl_065, simp)

lemma literal_07_not_high: "\<not> dbl 0.8 < dbl 0.7"
  by (simp only: dbl_08 dbl_07, simp)

lemma score_E_boundary: "attentivenessScore (dbl 0.65) (dbl 0.65) = dbl 0.65"
  by (simp only: score_E, simp only: dbl_065)

lemma score_F_boundary: "attentivenessScore (dbl 0.4) (dbl 0.4) = dbl 0.4"
  by (simp only: score_F, simp only: dbl_04)

lemma thresholds_ordered: "dbl 0.4 < dbl 0.65"
  by (simp only: dbl_04 dbl_065, simp)

lemma score_G_not_high: "\<not> dbl 0.65 < attentivenessScore (9 / 16) (5 / 32)"
  by (simp only: score_G, simp only: dbl_065, simp)

lemma score_G_low: "attentivenessScore (9 / 16) (5 / 32) < dbl 0.4"
  by (simp only: score_G, simp only: dbl_04, simp)

lemma score_H_boundary: "attentivenessScore (3 / 4) (1 / 2 + 1 / 2 ^ 53) = dbl 0.65"
  by (simp only: score_H, simp only: dbl_065)

text \<open>
  The weighted score of two scores in \<open>[0, 1]\<close> is within \<open>1 / 2 ^ 51\<close> of the exact value
  of \<open>0.6 * score + 0.4 * posture\<close>: three roundings and the rounding of the two weights.
\<close>

lemma weight_errors:
  "0 \<le> dbl 0.6" "dbl 0.6 \<le> 1" "\<bar>dbl 0.6 - 0.6\<bar> \<le> 1 / 2 ^ 54"
  "0 \<le> dbl 0.4" "dbl 0.4 \<le> 1" "\<bar>dbl 0.4 - 0.4\<bar> \<le> 1 / 2 ^ 54"
  by (simp_all only: dbl_06 dbl_04, simp_all)

lemma score_error:
  assumes a: "0 \<le> a" "a \<le> 1" and p: "0 \<le> p" "p \<le> 1"
  shows "\<bar>attentivenessScore a p - (0.6 * a + 0.4 * p)\<bar> \<le> 1 / 2 ^ 51"
proof -
  define c6 where "c6 = dbl 0.6"
  define c4 where "c4 = dbl 0.4"
  define r1 where "r1 = round64 (a * c6)"
  define r2 where "r2 = round64 (p * c4)"
  note w = weight_errors [folded c6_def c4_def]
  have x1: "0 \<le> a * c6" "a * c6 \<le> 1"
    using a w(1,2) by (simp_all add: mult_le_one)
  have x2: "0 \<le> p * c4" "p * c4 \<le> 1"
    using p w(4,5) by (simp_all add: mult_le_one)
  have e1: "\<bar>r1 - a * c6\<bar> \<le> 1 / 2 ^ 53"
    unfolding r1_def using x1 by (intro round64_error) simp
  have e2: "\<bar>r2 - p * c4\<bar> \<le> 1 / 2 ^ 53"
    unfolding r2_def using x2 by (intro round64_error) simp
  have d1: "\<bar>a * c6 - 0.6 * a\<bar> \<le> 1 / 2 ^ 54"
  proof -
    have "a * c6 - 0.6 * a = a * (c6 - 0.6)"
      by (simp add: algebra_simps)
    then have "\<bar>a * c6 - 0.6 * a\<bar> = a * \<bar>c6 - 0.6\<bar>"
      using a(1) by (simp only: abs_mult abs_of_nonneg)
    also have "\<dots> \<le> 1 * (1 / 2 ^ 54)"
      using a w(3) by (intro mult_mono) auto
    finally show ?thesis by simp
  qed
  have d2: "\<bar>p * c4 - 0.4 * p\<bar> \<le> 1 / 2 ^ 54"
  proof -
    have "p * c4 - 0.4 * p = p * (c4 - 0.4)"
      by (simp add: algebra_simps)
    then have "\<bar>p * c4 - 0.4 * p\<bar> = p * \<bar>c4 - 0.4\<bar>"
      using p(1) by (simp only: abs_mult abs_of_nonneg)
    also have "\<dots> \<le> 1 * (1 / 2 ^ 54)"
      using p w(6) by (intro mult_mono) auto
    finally show ?thesis by simp
  qed
  have small: "(1::real) / 2 ^ 53 \<le> 1 / 8" "(1::real) / 2 ^ 54 \<le> 1 / 8"
    by simp_all
  have lim: "a * c6 + p * c4 \<le> 3 / 2"
  proof -
    have "a * c6 \<le> 0.6 * a + 1 / 8" using d1 small by linarith
    moreover have "p * c4 \<le> 0.4 * p + 1 / 8" using d2 small by linarith
    ultimately show ?thesis using a p by linarith
  qed
  have "\<bar>r1 + r2\<bar> < 2"
    using e1 e2 x1 x2 lim small by linarith
  then have e3: "\<bar>round64 (r1 + r2) - (r1 + r2)\<bar> \<le> 1 / 2 ^ 53"
    by (rule round64_error)
  have "attentivenessScore a p = round64 (r1 + r2)"
    by (simp add: attentivenessScore_def r1_def r2_def c6_def c4_def)
  moreover have "3 * ((1::real) / 2 ^ 53) + 2 * (1 / 2 ^ 54) = 1 / 2 ^ 51"
    by simp
  ultimately show ?thesis
    using e1 e2 e3 d1 d2 by linarith
qed

section \<open>The classifier\<close>

text \<open>
  C1, as the code has it: when more than five seconds of distraction are reported, the
  state is \<open>Distracted\<close> unless the weighted score, as computed in double precision,
  exceeds 0.65, in which case the first branch wins and the state is \<open>Attentive\<close>.
\<close>

theorem timeDistracted_override:
  "or_zero (timeDistracted fs) > 5 \<Longrightarrow>
   attentivenessState (analyzeAttentiveness fs r) =
     (if attentivenessScore (or_zero (attentionScore fs)) (or_zero (posture fs)) > dbl 0.65
      then Attentive else Distracted)"
  by (simp add: analyzeAttentiveness_def Let_def)

text \<open>
  The override at a score in the mixed band, its absence at a high score, and the
  override at scores 0.75 and \<open>0.5 + 2 powi (- 53)\<close>, whose computed weighted score is the
  double of 0.65 and so not above it.
\<close>

theorem timeDistracted_override_witness:
  "attentivenessState (analyzeAttentiveness (telemetry (dbl 0.5) (dbl 0.5) 6) 0) = Distracted
   \<and> attentivenessState (analyzeAttentiveness (telemetry (dbl 0.9) (dbl 0.9) 6) 0) = Attentive
   \<and> attentivenessState
        (analyzeAttentiveness (telemetry (3 / 4) (1 / 2 + 1 / 2 ^ 53) 6) 0) = Distracted"
  using timeDistracted_override [of "telemetry (dbl 0.5) (dbl 0.5) 6" 0]
        timeDistracted_override [of "telemetry (dbl 0.9) (dbl 0.9) 6" 0]
        timeDistracted_override [of "telemetry (3 / 4) (1 / 2 + 1 / 2 ^ 53) 6" 0]
        score_C_not_high score_A_high score_H_boundary
  by (simp add: telemetry_def)

text \<open>
  C1 as stated fails: attention 0.9, posture 0.9 and six seconds of distraction are not
  classified \<open>Distracted\<close>.
\<close>

theorem timeDistracted_override_counterexample:
  "(6::int) > 5 \<and>
   attentivenessState (analyzeAttentiveness (telemetry (dbl 0.9) (dbl 0.9) 6) 0) \<noteq> Distracted"
  using score_A_high by (simp add: state_cases)

text \<open>
  C2: the weighted score is the double-precision value of
  \<open>0.6 * attentionScore + 0.4 * posture\<close>, which for scores in \<open>[0, 1]\<close> is within
  \<open>1 / 2 ^ 51\<close> of the exact value; the state is \<open>Attentive\<close> exactly when the weighted score
  is above 0.65, otherwise \<open>Distracted\<close> exactly when it is below 0.4 or more than five
  seconds of distraction are reported, otherwise \<open>Unknown\<close>. Both comparisons are strict:
  a weighted score of exactly 0.65 is not \<open>Attentive\<close>, and one of exactly 0.4 with at most
  five seconds is \<open>Unknown\<close>.
\<close>

theorem classifier_thresholds:
  "(let w = attentivenessScore a p;
        st = attentivenessState (analyzeAttentiveness (telemetry a p td) r)
    in w = round64 (round64 (a * dbl 0.6) + round64 (p * dbl 0.4)) \<and>
       (0 \<le> a \<and> a \<le> 1 \<and> 0 \<le> p \<and> p \<le> 1 \<longrightarrow> \<bar>w - (0.6 * a + 0.4 * p)\<bar> \<le> 1 / 2 ^ 51) \<and>
       (st = Attentive \<longleftrightarrow> w > dbl 0.65) \<and>
       (st = Distracted \<longleftrightarrow> \<not> w > dbl 0.65 \<and> (w < dbl 0.4 \<or> td > 5)) \<and>
       (st = Unknown \<longleftrightarrow> \<not> w > dbl 0.65 \<and> \<not> (w < dbl 0.4 \<or> td > 5)) \<and>
       (w = dbl 0.65 \<longrightarrow> st \<noteq> Attentive) \<and>
       (w = dbl 0.4 \<and> td \<le> 5 \<longrightarrow> st = Unknown))"
proof -
  let ?w = "attentivenessScore a p"
  let ?st = "attentivenessState (analyzeAttentiveness (telemetry a p td) r)"
  have c1: "?w = round64 (round64 (a * dbl 0.6) + round64 (p * dbl 0.4))"
    by (rule attentivenessScore_def)
  have c2: "0 \<le> a \<and> a \<le> 1 \<and> 0 \<le> p \<and> p \<le> 1 \<longrightarrow> \<bar>?w - (0.6 * a + 0.4 * p)\<bar> \<le> 1 / 2 ^ 51"
    using score_error [of a p] by blast
  have c3: "?st = Attentive \<longleftrightarrow> ?w > dbl 0.65"
    by (simp add: state_cases)
  have c4: "?st = Distracted \<longleftrightarrow> \<not> ?w > dbl 0.65 \<and> (?w < dbl 0.4 \<or> td > 5)"
    by (simp add: state_cases)
  have c5: "?st = Unknown \<longleftrightarrow> \<not> ?w > dbl 0.65 \<and> \<not> (?w < dbl 0.4 \<or> td > 5)"
    by (simp add: state_cases)
  have c6: "?w = dbl 0.65 \<longrightarrow> ?st \<noteq> Attentive"
    by (simp add: state_cases)
  have c7: "?w = dbl 0.4 \<and> td \<le> 5 \<longrightarrow> ?st = Unknown"
    using thresholds_ordered by (simp add: state_cases)
  from c1 c2 c3 c4 c5 c6 c7 show ?thesis
    unfolding Let_def by blast
qed

text \<open>
  The two boundary scores, reached with both inputs at 0.65 and at 0.4; and scores
  0.5625 and 0.15625, whose exact weighted value is 0.4 and whose computed one is the
  double just below 0.4.
\<close>

theorem classifier_thresholds_witness:
  "attentivenessState (analyzeAttentiveness (telemetry (dbl 0.65) (dbl 0.65) 5) 0) = Unknown
   \<and> attentivenessState (analyzeAttentiveness (telemetry (dbl 0.4) (dbl 0.4) 5) 0) = Unknown
   \<and> attentivenessState (analyzeAttentiveness (telemetry (9 / 16) (5 / 32) 0) 0) = Distracted"
proof -
  note e = classifier_thresholds [of "dbl 0.65" "dbl 0.65" 5 0, unfolded Let_def]
  note f = classifier_thresholds [of "dbl 0.4" "dbl 0.4" 5 0, unfolded Let_def]
  note g = classifier_thresholds [of "9 / 16" "5 / 32" 0 0, unfolded Let_def]
  from e score_E_boundary have "attentivenessState
      (analyzeAttentiveness (telemetry (dbl 0.65) (dbl 0.65) 5) 0) = Unknown"
    using thresholds_ordered by auto
  moreover from f score_F_boundary have "attentivenessState
      (analyzeAttentiveness (telemetry (dbl 0.4) (dbl 0.4) 5) 0) = Unknown"
    by auto
  moreover from g score_G_not_high score_G_low have "attentivenessState
      (analyzeAttentiveness (telemetry (9 / 16) (5 / 32) 0) 0) = Distracted"
    by blast
  ultimately show ?thesis by blast
qed

text \<open>
  C7: the three reference scenarios give \<open>Attentive\<close> with "Strong engagement detected",
  \<open>Distracted\<close> with "Limited screen focus detected" and \<open>Unknown\<close> with
  "Processing attention patterns...", whatever the random draw.
\<close>

theorem reference_scenarios:
  "analyzeAttentiveness (telemetry (dbl 0.9) (dbl 0.9) 0) r =
     \<lparr>attentivenessState = Attentive,
      attentivenessDescription = ''Strong engagement detected''\<rparr>
   \<and> analyzeAttentiveness (telemetry (dbl 0.2) (dbl 0.2) 0) r =
     \<lparr>attentivenessState = Distracted,
      attentivenessDescription = ''Limited screen focus detected''\<rparr>
   \<and> analyzeAttentiveness (telemetry (dbl 0.5) (dbl 0.5) 0) r =
     \<lparr>attentivenessState = Unknown,
      attentivenessDescription = ''Processing attention patterns...''\<rparr>"
proof -
  have "\<not> 5 < (0::int)" by simp
  note c = unknown_processing [OF score_C_not_high score_C_not_low this]
  show ?thesis
    by (intro conjI attentive_strong [OF score_A_high literal_09_high]
          distracted_limited [OF score_B_not_high score_B_low literal_02_low] c)
qed

text \<open>
  C8: with the camera live in both periods, two ticks on the same triple of telemetry
  values publish the same state, whatever the two random draws and the two previous
  readings are.
\<close>

theorem state_independent_of_random_source:
  "or_zero (attentionScore fs1) = or_zero (attentionScore fs2) \<Longrightarrow>
   or_zero (posture fs1) = or_zero (posture fs2) \<Longrightarrow>
   or_zero (timeDistracted fs1) = or_zero (timeDistracted fs2) \<Longrightarrow>
   isActive cam1 \<and> facingCamera cam1 \<and> webcamReady cam1 \<and> videoElement cam1 \<Longrightarrow>
   isActive cam2 \<and> facingCamera cam2 \<and> webcamReady cam2 \<and> videoElement cam2 \<Longrightarrow>
   attentivenessState (tick cam1 fs1 r1 rd1) = attentivenessState (tick cam2 fs2 r2 rd2)"
  by (simp add: tick_def analyzeAttentiveness_def Let_def)

text \<open>Two draws that change the description of the same telemetry, not its state.\<close>

theorem state_independent_of_random_source_witness:
  "attentivenessState (tick liveCamera (telemetry (dbl 0.7) (dbl 0.7) 0) 0 initialReading)
     = attentivenessState (tick liveCamera (telemetry (dbl 0.7) (dbl 0.7) 0) 0.5 initialReading)
   \<and> attentivenessDescription (tick liveCamera (telemetry (dbl 0.7) (dbl 0.7) 0) 0 initialReading)
     \<noteq> attentivenessDescription
         (tick liveCamera (telemetry (dbl 0.7) (dbl 0.7) 0) 0.5 initialReading)"
proof -
  have live: "tick liveCamera fs r rd = analyzeAttentiveness fs r" for fs r rd
    by (simp add: tick_def liveCamera_def)
  note drawn = attentive_drawn [OF score_D_high literal_07_not_high literal_07_not_high]
  have "attentivenessDescription (tick liveCamera (telemetry (dbl 0.7) (dbl 0.7) 0) 0 initialReading)
     \<noteq> attentivenessDescription
         (tick liveCamera (telemetry (dbl 0.7) (dbl 0.7) 0) 0.5 initialReading)"
    by (simp add: live drawn pick_def descriptions_def)
  moreover have "isActive liveCamera \<and> facingCamera liveCamera \<and> webcamReady liveCamera
      \<and> videoElement liveCamera"
    by (simp add: liveCamera_def)
  ultimately show ?thesis
    using state_independent_of_random_source
      [of "telemetry (dbl 0.7) (dbl 0.7) 0" "telemetry (dbl 0.7) (dbl 0.7) 0"
          liveCamera liveCamera 0 initialReading "0.5" initialReading]
    by blast
qed

text \<open>
  C9: over any number of periods in each of which the webcam is not ready, the subject
  does not face the camera or monitoring is inactive, the published reading stays what
  it was, whatever the telemetry of those periods is.
\<close>

theorem inactive_camera_keeps_reading:
  "\<forall>p \<in> set ps. \<not> webcamReady (fst p) \<or> \<not> facingCamera (fst p) \<or> \<not> isActive (fst p) \<Longrightarrow>
   ticks rd ps = rd"
proof (induction ps arbitrary: rd)
  case Nil
  show ?case by simp
next
  case (Cons p ps)
  obtain cam fs r where p: "p = (cam, fs, r)"
    by (cases p) auto
  from Cons.prems p have "\<not> webcamReady cam \<or> \<not> facingCamera cam \<or> \<not> isActive cam"
    by simp
  then have skip: "tick cam fs r rd = rd"
    by (auto simp add: tick_def)
  from Cons.prems have "ticks rd ps = rd"
    by (intro Cons.IH) simp
  with skip p show ?case
    by simp
qed

text \<open>
  Telemetry that a live camera turns into a new reading leaves the reading alone in two
  periods without a live camera.
\<close>

theorem inactive_camera_keeps_reading_witness:
  "ticks initialReading
     [(liveCamera\<lparr>facingCamera := False\<rparr>, telemetry (dbl 0.9) (dbl 0.9) 0, 0),
      (liveCamera\<lparr>webcamReady := False\<rparr>, telemetry (dbl 0.2) (dbl 0.2) 0, 0.5)]
     = initialReading
   \<and> ticks initialReading [(liveCamera, telemetry (dbl 0.9) (dbl 0.9) 0, 0)] \<noteq> initialReading"
  using inactive_camera_keeps_reading
    [of "[(liveCamera\<lparr>facingCamera := False\<rparr>, telemetry (dbl 0.9) (dbl 0.9) 0, 0),
          (liveCamera\<lparr>webcamReady := False\<rparr>, telemetry (dbl 0.2) (dbl 0.2) 0, 0.5)]"
        initialReading]
    attentive_strong [OF score_A_high literal_09_high, of 0 0]
  by (simp add: liveCamera_def tick_def initialReading_def)

text \<open>
  C10: a falsy telemetry field is read as 0, each field on its own; the analyzer is a
  total function, so a reading is produced for every input. With all three fields falsy
  the weighted score is 0 and the reading is \<open>Distracted\<close>.
\<close>

theorem missing_telemetry_reads_as_zero:
  "(falsy a \<longrightarrow> analyzeAttentiveness (fs\<lparr>attentionScore := a\<rparr>) r
                = analyzeAttentiveness (fs\<lparr>attentionScore := JNum 0\<rparr>) r)
   \<and> (falsy p \<longrightarrow> analyzeAttentiveness (fs\<lparr>posture := p\<rparr>) r
                = analyzeAttentiveness (fs\<lparr>posture := JNum 0\<rparr>) r)
   \<and> (falsy td \<longrightarrow> analyzeAttentiveness (fs\<lparr>timeDistracted := td\<rparr>) r
                = analyzeAttentiveness (fs\<lparr>timeDistracted := JNum 0\<rparr>) r)
   \<and> (falsy a \<and> falsy p \<and> falsy td \<longrightarrow>
        attentivenessScore (or_zero a) (or_zero p) = 0
      \<and> analyzeAttentiveness \<lparr>attentionScore = a, posture = p, timeDistracted = td\<rparr> r
          = \<lparr>attentivenessState = Distracted,
             attentivenessDescription = ''Limited screen focus detected''\<rparr>)"
  using thresholds_positive
  by (simp add: analyzeAttentiveness_def Let_def falsy_or_zero score_zero)

text \<open>A tick on telemetry with no field present.\<close>

theorem missing_telemetry_reads_as_zero_witness:
  "analyzeAttentiveness
     \<lparr>attentionScore = JUndefined, posture = JNaN, timeDistracted = JNull\<rparr> 0
     = \<lparr>attentivenessState = Distracted,
        attentivenessDescription = ''Limited screen focus detected''\<rparr>"
proof -
  have "falsy (JUndefined :: real jsval) \<and> falsy (JNaN :: real jsval)
        \<and> falsy (JNull :: int jsval)"
    by simp
  with missing_telemetry_reads_as_zero [of JUndefined _ 0 JNaN JNull] show ?thesis
    by blast
qed

section \<open>The session controller\<close>

text \<open>
  C3, as the code has it: when the webcam request resolves to false, the approval handler
  leaves the session as it was and only shows a destructive toast, so a session awaiting
  consent keeps awaiting it; nothing is thrown and no status stands for an error. From
  \<open>AwaitingConsent\<close> a successful request leads to \<open>Ready\<close>, and \<open>ConsentDeclined\<close> is
  entered by the decline handler.
\<close>

theorem acquisition_failure_keeps_session:
  "handleConsentApproved False s =
     (s, [RequestWebcamAccess,
          Toast (Some ''destructive'') ''Camera access required''
            ''Please grant camera access to use FocusLens''])
   \<and> (status_of s = AwaitingConsent \<longrightarrow>
        status_of (fst (handleConsentApproved False s)) = AwaitingConsent
      \<and> status_of (fst (handleConsentApproved True s)) = Ready
      \<and> status_of (fst (handleConsentDeclined s)) = ConsentDeclined)"
  by (simp add: handleConsentApproved_def handleConsentDeclined_def status_of_def
           split: if_splits option.splits)

text \<open>The three outcomes of the consent dialog on a fresh page.\<close>

theorem acquisition_failure_keeps_session_witness:
  "status_of (initialSession :: summaryInput session) = AwaitingConsent
   \<and> status_of (fst (handleConsentApproved False (initialSession :: summaryInput session)))
       = AwaitingConsent
   \<and> status_of (fst (handleConsentApproved True (initialSession :: summaryInput session)))
       = Ready
   \<and> status_of (fst (handleConsentDeclined (initialSession :: summaryInput session)))
       = ConsentDeclined"
  using acquisition_failure_keeps_session [of "initialSession :: summaryInput session"]
  by (simp add: initialSession_def status_of_def)

text \<open>
  C3 as stated fails: after a failed acquisition on a fresh page the status is not
  \<open>ConsentDeclined\<close>.
\<close>

theorem acquisition_failure_counterexample:
  "status_of (fst (handleConsentApproved False (initialSession :: summaryInput session)))
     \<noteq> ConsentDeclined"
  by (simp add: handleConsentApproved_def initialSession_def status_of_def)

text \<open>
  C4, as the code has it: the page offers the reset on the summary view alone. In every
  state the page can reach other than \<open>Complete\<close> that view is not shown and a reset
  is a no-op: status and summary are unchanged. From \<open>Complete\<close> with the consent
  question decided the summary view is shown, and the reset clears the summary, keeps
  the consent decision and makes the status \<open>Ready\<close> when camera consent was granted and
  \<open>ConsentDeclined\<close> when it was declined. From \<open>Complete\<close> with consent undecided the
  consent dialog is shown instead, and there is no reset to invoke.
\<close>

theorem resetSession_effect:
  "(let s = run gen evs
    in (status_of s \<noteq> Complete \<longrightarrow>
          renderContent s \<noteq> SummaryView \<and> onReset s = (s, []))
     \<and> (status_of s = Complete \<and> hasConsent s \<noteq> None \<longrightarrow>
          renderContent s = SummaryView
        \<and> onReset s = handleResetSession s
        \<and> sessionSummary (fst (onReset s)) = None
        \<and> hasConsent (fst (onReset s)) = hasConsent s
        \<and> status_of (fst (onReset s)) =
            (if hasConsent s = Some True then Ready else ConsentDeclined)
        \<and> snd (onReset s) = [])
     \<and> (status_of s = Complete \<and> hasConsent s = None \<longrightarrow>
          renderContent s = ConsentView \<and> onReset s = (s, [])))"
proof -
  define s where "s = run gen evs"
  have c: "sessionComplete s \<longrightarrow> sessionSummary s \<noteq> None"
    using run_consistent [of gen evs] by (simp add: consistent_def s_def)
  have x: "\<not> (isRecording s \<and> sessionComplete s)"
    using run_exclusive [of gen evs] by (simp add: exclusive_def s_def)
  have a: "status_of s \<noteq> Complete \<longrightarrow>
      renderContent s \<noteq> SummaryView \<and> onReset s = (s, [])"
    using x by (auto simp add: status_Complete_iff renderContent_def onReset_def)
  have b: "status_of s = Complete \<and> hasConsent s \<noteq> None \<longrightarrow>
          renderContent s = SummaryView
        \<and> onReset s = handleResetSession s
        \<and> sessionSummary (fst (onReset s)) = None
        \<and> hasConsent (fst (onReset s)) = hasConsent s
        \<and> status_of (fst (onReset s)) =
            (if hasConsent s = Some True then Ready else ConsentDeclined)
        \<and> snd (onReset s) = []"
    using c
    by (auto simp add: status_Complete_iff renderContent_def onReset_def handleResetSession_def
          status_of_def)
  have d: "status_of s = Complete \<and> hasConsent s = None \<longrightarrow>
          renderContent s = ConsentView \<and> onReset s = (s, [])"
    by (simp add: renderContent_def onReset_def)
  from a b d show ?thesis
    unfolding Let_def s_def [symmetric] by blast
qed

text \<open>
  A reset after a completed session with the camera granted; and no reset on a fresh
  page or in a session started again after its summary.
\<close>

theorem resetSession_effect_witness:
  "status_of (run id [ConsentApproved True, StartSession 0,
                      EndSession 1500 (telemetry 0.9 0.9 0) ''hello'']) = Complete
   \<and> status_of (fst (onReset
         (run id [ConsentApproved True, StartSession 0,
                  EndSession 1500 (telemetry 0.9 0.9 0) ''hello'']))) = Ready
   \<and> onReset (initialSession :: summaryInput session) = (initialSession, [])
   \<and> status_of (run id [ConsentApproved True, StartSession 0,
                        EndSession 1500 (telemetry 0.9 0.9 0) ''hello'', StartSession 9000])
       = Recording
   \<and> onReset (run id [ConsentApproved True, StartSession 0,
                      EndSession 1500 (telemetry 0.9 0.9 0) ''hello'', StartSession 9000])
       = (run id [ConsentApproved True, StartSession 0,
                  EndSession 1500 (telemetry 0.9 0.9 0) ''hello'', StartSession 9000], [])"
  using resetSession_effect
          [of id "[ConsentApproved True, StartSession 0,
                   EndSession 1500 (telemetry 0.9 0.9 0) ''hello'']"]
        resetSession_effect [of "id :: summaryInput \<Rightarrow> summaryInput" "[]"]
        resetSession_effect
          [of id "[ConsentApproved True, StartSession 0,
                   EndSession 1500 (telemetry 0.9 0.9 0) ''hello'', StartSession 9000]"]
  by (simp add: run_def initialSession_def handler_defs status_of_def Let_def
        renderContent_def onReset_def)

text \<open>
  C4 as stated fails: a session recorded and completed after camera consent was
  declined shows its summary, and the reset offered there leads to \<open>ConsentDeclined\<close>,
  not to \<open>Ready\<close>.
\<close>

theorem resetSession_counterexample:
  "status_of (run id [ConsentDeclinedOp, StartSession 0,
                      EndSession 1500 (telemetry 0.9 0.9 0) ''hello'']) = Complete
   \<and> renderContent (run id [ConsentDeclinedOp, StartSession 0,
                      EndSession 1500 (telemetry 0.9 0.9 0) ''hello'']) = SummaryView
   \<and> status_of (fst (handleResetSession
         (run id [ConsentDeclinedOp, StartSession 0,
                  EndSession 1500 (telemetry 0.9 0.9 0) ''hello'']))) \<noteq> Ready"
  by (simp add: run_def initialSession_def handler_defs status_of_def Let_def renderContent_def)

text \<open>
  C5, as the code has it: "a summary is stored exactly in \<open>Complete\<close>" holds in the initial
  state and is preserved by both consent handlers, by ending a session, by a reset, and
  by starting a session from a state other than \<open>Complete\<close>. In every state the page can
  reach, a \<open>Complete\<close> session has a summary.
\<close>

theorem summary_invariant:
  "summary_iff_complete (initialSession :: 'sum session)
   \<and> (summary_iff_complete s \<longrightarrow>
        summary_iff_complete (fst (handleConsentApproved success s))
      \<and> summary_iff_complete (fst (handleConsentDeclined s))
      \<and> summary_iff_complete (fst (handleEndSession gen now fs tr s))
      \<and> summary_iff_complete (fst (handleResetSession s))
      \<and> (status_of s \<noteq> Complete \<longrightarrow> summary_iff_complete (fst (handleStartSession now s))))
   \<and> (status_of (run gen evs) = Complete \<longrightarrow> sessionSummary (run gen evs) \<noteq> None)"
proof (intro conjI impI)
  show "summary_iff_complete (initialSession :: 'sum session)"
    by (simp add: summary_iff_complete_def initialSession_def status_of_def)
next
  assume "status_of (run gen evs) = Complete"
  then have "sessionComplete (run gen evs)"
    by (simp add: status_Complete_iff)
  then show "sessionSummary (run gen evs) \<noteq> None"
    using run_consistent [of gen evs] by (simp add: consistent_def)
qed (auto simp add: summary_iff_complete_def status_Complete_iff handler_defs Let_def)

text \<open>The invariant along a session that is granted, started, ended and reset.\<close>

theorem summary_invariant_witness:
  "summary_iff_complete (run id [ConsentApproved True, StartSession 0])
   \<and> summary_iff_complete
       (fst (handleEndSession id 1500 (telemetry 0.9 0.9 0) ''hello''
          (run id [ConsentApproved True, StartSession 0])))
   \<and> status_of (run id [ConsentApproved True, StartSession 0,
                        EndSession 1500 (telemetry 0.9 0.9 0) ''hello'']) = Complete
   \<and> sessionSummary (run id [ConsentApproved True, StartSession 0,
                             EndSession 1500 (telemetry 0.9 0.9 0) ''hello''])
       = Some (SummaryInput 1 (JNum 0.9) (JNum 0) ''hello'')"
  using summary_invariant
          [of "run id [ConsentApproved True, StartSession 0]" True id 1500
              "telemetry 0.9 0.9 0" "''hello''"
              "[ConsentApproved True, StartSession 0,
                EndSession 1500 (telemetry 0.9 0.9 0) ''hello'']"]
  by (simp add: run_def initialSession_def handler_defs status_of_def summary_iff_complete_def
        Let_def telemetry_def)

text \<open>
  C5 as stated fails: starting a session from \<open>Complete\<close> keeps the stored summary while
  the status becomes \<open>Recording\<close>, so the invariant holds before the start and not after.
\<close>

theorem summary_invariant_counterexample:
  "summary_iff_complete
     (run id [ConsentApproved True, StartSession 0,
              EndSession 1500 (telemetry 0.9 0.9 0) ''hello''])
   \<and> \<not> summary_iff_complete
         (run id [ConsentApproved True, StartSession 0,
                  EndSession 1500 (telemetry 0.9 0.9 0) ''hello'', StartSession 9000])"
  by (simp add: run_def initialSession_def handler_defs status_of_def summary_iff_complete_def
        Let_def)

text \<open>
  C6: ending a session that is not \<open>Recording\<close> returns the state unchanged and calls no
  collaborator. Ending a \<open>Recording\<close> session started at \<open>t\<close> takes the whole seconds of
  \<open>now - t\<close> as the duration, calls the summary generator once, with that duration, the
  current attention score, the time distracted and the transcription, stores its result
  as the summary, makes the status \<open>Complete\<close> and stops the webcam. Every \<open>Recording\<close>
  state the page can reach has a start time.
\<close>

theorem endSession_effect:
  "(status_of s \<noteq> Recording \<longrightarrow> handleEndSession gen now fs tr s = (s, []))
   \<and> (status_of s = Recording \<and> sessionStartTime s = Some t \<longrightarrow>
        (let d = (now - t) div 1000;
             inp = SummaryInput d (attentionScore fs) (timeDistracted fs) tr;
             res = handleEndSession gen now fs tr s
         in real_of_int d \<le> real_of_int (now - t) / 1000
          \<and> real_of_int (now - t) / 1000 < real_of_int d + 1
          \<and> sessionSummary (fst res) = Some (gen inp)
          \<and> status_of (fst res) = Complete
          \<and> snd res =
              [GenerateSessionSummary inp, StopWebcamAccess,
               Toast None ''Session complete''
                 (''Your '' @ show_int d @ '' second session has been analyzed.'')]))
   \<and> (status_of (run gen evs) = Recording \<longrightarrow> sessionStartTime (run gen evs) \<noteq> None)"
proof (intro conjI impI)
  assume "status_of s \<noteq> Recording"
  then show "handleEndSession gen now fs tr s = (s, [])"
    by (simp add: status_Recording_iff handleEndSession_def)
next
  assume a: "status_of s = Recording \<and> sessionStartTime s = Some t"
  have fl: "\<lfloor>real_of_int (now - t) / 1000\<rfloor> = (now - t) div 1000"
    by (rule floor_seconds)
  have b1: "real_of_int ((now - t) div 1000) \<le> real_of_int (now - t) / 1000"
    using of_int_floor_le [of "real_of_int (now - t) / 1000"] by (simp only: fl)
  have b2: "real_of_int (now - t) / 1000 < real_of_int ((now - t) div 1000) + 1"
  proof -
    have "real_of_int (now - t) / 1000 < real_of_int \<lfloor>real_of_int (now - t) / 1000\<rfloor> + 1"
      by linarith
    then show ?thesis by (simp only: fl)
  qed
  from a have rec: "isRecording s" and st: "sessionStartTime s = Some t"
    by (simp_all add: status_Recording_iff)
  from rec st b1 b2 show
    "(let d = (now - t) div 1000;
          inp = SummaryInput d (attentionScore fs) (timeDistracted fs) tr;
          res = handleEndSession gen now fs tr s
      in real_of_int d \<le> real_of_int (now - t) / 1000
       \<and> real_of_int (now - t) / 1000 < real_of_int d + 1
       \<and> sessionSummary (fst res) = Some (gen inp)
       \<and> status_of (fst res) = Complete
       \<and> snd res =
           [GenerateSessionSummary inp, StopWebcamAccess,
            Toast None ''Session complete''
              (''Your '' @ show_int d @ '' second session has been analyzed.'')])"
    by (simp add: handleEndSession_def Let_def fl status_of_def del: of_int_diff)
next
  assume "status_of (run gen evs) = Recording"
  then have "isRecording (run gen evs)"
    by (simp add: status_Recording_iff)
  then show "sessionStartTime (run gen evs) \<noteq> None"
    using run_consistent [of gen evs] by (simp add: consistent_def)
qed

text \<open>
  A session started at 1000 ms and ended at 4999 ms lasts 3 seconds; ending a session
  on a fresh page does nothing.
\<close>

theorem endSession_effect_witness:
  "status_of (run id [ConsentApproved True, StartSession 1000]) = Recording
   \<and> sessionStartTime (run id [ConsentApproved True, StartSession 1000]) = Some 1000
   \<and> handleEndSession id 4999 (telemetry 0.9 0.9 6) ''hello''
       (run id [ConsentApproved True, StartSession 1000]) =
       (\<lparr>hasConsent = Some True, isRecording = False, sessionComplete = True,
         sessionStartTime = Some 1000,
         sessionSummary = Some (SummaryInput 3 (JNum 0.9) (JNum 6) ''hello'')\<rparr>,
        [GenerateSessionSummary (SummaryInput 3 (JNum 0.9) (JNum 6) ''hello''),
         StopWebcamAccess,
         Toast None ''Session complete'' ''Your 3 second session has been analyzed.''])
   \<and> handleEndSession id 4999 (telemetry 0.9 0.9 6) ''hello''
       (initialSession :: summaryInput session) = (initialSession, [])"
  using endSession_effect
          [of "run id [ConsentApproved True, StartSession 1000]" id 4999
              "telemetry 0.9 0.9 6" "''hello''" 1000 "[]"]
        endSession_effect
          [of "initialSession :: summaryInput session" id 4999
              "telemetry 0.9 0.9 6" "''hello''" 0 "[]"]
  by (simp add: run_def initialSession_def handler_defs status_of_def Let_def telemetry_def
        show_int_def prod_eq_iff)

end
